theory Spec2Isabelle
  imports Complex_Main
begin

section \<open>Python values and exceptions\<close>

text \<open>
  The program is a Python script (\<^verbatim>\<open>src/ecaplugin.py\<close>). Every exception it can raise is a
  value of \<open>error\<close>; a function that can raise returns \<open>error + 'a\<close> with the exception
  on the left. \<open>SystemExit\<close> carries the message handed to \<^verbatim>\<open>sys.exit\<close>. Strings are lists
  of characters with code points below 256.
\<close>

datatype error =
    SystemExit string
  | ValueError
  | OverflowError
  | TypeError
  | KeyError string
  | AttributeError
  | IndexError

type_synonym 'a result = "error + 'a"

definition rbind :: "'a result \<Rightarrow> ('a \<Rightarrow> 'b result) \<Rightarrow> 'b result" where
  "rbind r f = (case r of Inl e \<Rightarrow> Inl e | Inr x \<Rightarrow> f x)"

text \<open>A comprehension or generator whose body can raise: the first exception wins.\<close>

fun map_result :: "('a \<Rightarrow> 'b result) \<Rightarrow> 'a list \<Rightarrow> 'b list result" where
  "map_result f [] = Inr []"
| "map_result f (x # xs) =
     (case f x of
        Inl e \<Rightarrow> Inl e
      | Inr y \<Rightarrow> (case map_result f xs of Inl e \<Rightarrow> Inl e | Inr ys \<Rightarrow> Inr (y # ys)))"

text \<open>\<^verbatim>\<open>sep.join(strings)\<close>\<close>

fun join :: "string \<Rightarrow> string list \<Rightarrow> string" where
  "join sep [] = []"
| "join sep [x] = x"
| "join sep (x # y # ys) = x @ sep @ join sep (y # ys)"

text \<open>\<^verbatim>\<open>xs[i]\<close> for a list: a negative index counts from the end.\<close>

definition py_index :: "'a list \<Rightarrow> int \<Rightarrow> 'a result" where
  "py_index xs i =
     (if 0 \<le> i \<and> i < int (length xs) then Inr (xs ! nat i)
      else if i < 0 \<and> - int (length xs) \<le> i then Inr (xs ! nat (int (length xs) + i))
      else Inl IndexError)"

subsection \<open>Integers and their decimal text\<close>

text \<open>Big numbers are integers throughout, so that every definition evaluates in binary.\<close>

definition digit_char :: "int \<Rightarrow> char" where
  "digit_char d = ''0123456789'' ! nat d"

function digits_of_nat :: "int \<Rightarrow> string" where
  "digits_of_nat n =
     (if n < 10 then [digit_char n] else digits_of_nat (n div 10) @ [digit_char (n mod 10)])"
  by pat_completeness auto
termination
  by (relation "measure nat") auto

declare digits_of_nat.simps [simp del]

text \<open>\<^verbatim>\<open>str(i)\<close> and \<^verbatim>\<open>'%d' % i\<close> for an integer.\<close>

definition str_int :: "int \<Rightarrow> string" where
  "str_int i = (if i < 0 then CHR ''-'' # digits_of_nat (- i) else digits_of_nat i)"

definition is_digit :: "char \<Rightarrow> bool" where
  "is_digit c = (c \<in> set ''0123456789'')"

definition digit_val :: "char \<Rightarrow> int" where
  "digit_val c = of_char c - 48"

definition is_space :: "char \<Rightarrow> bool" where
  "is_space c =
     (c \<in> set [CHR 0x09, CHR 0x0A, CHR 0x0B, CHR 0x0C, CHR 0x0D, CHR 0x20, CHR 0x85, CHR 0xA0])"

definition strip :: "string \<Rightarrow> string" where
  "strip s = rev (dropWhile is_space (rev (dropWhile is_space s)))"

text \<open>
  \<open>is_space\<close> are the characters \<^verbatim>\<open>int\<close> and \<^verbatim>\<open>float\<close> strip from both ends of a string.
  The numeric constructors accept one underscore between two digits and nowhere else;
  \<open>prev\<close> is the character before the rest of the text.
\<close>

fun underscores_ok :: "char \<Rightarrow> string \<Rightarrow> bool" where
  "underscores_ok prev [] = (prev \<noteq> CHR ''_'')"
| "underscores_ok prev (c # cs) =
     (if c = CHR ''_'' then is_digit prev \<and> underscores_ok c cs
      else if prev = CHR ''_'' then is_digit c \<and> underscores_ok c cs
      else underscores_ok c cs)"

definition digits_value :: "string \<Rightarrow> int" where
  "digits_value ds = foldl (\<lambda>acc c. 10 * acc + digit_val c) 0 ds"

definition split_sign :: "string \<Rightarrow> bool \<times> string" where
  "split_sign s =
     (case s of
        [] \<Rightarrow> (False, [])
      | c # r \<Rightarrow> if c = CHR ''-'' then (True, r) else if c = CHR ''+'' then (False, r) else (False, s))"

text \<open>\<^verbatim>\<open>int(s)\<close> for a string, and for \<^verbatim>\<open>None\<close>.\<close>

definition int_of_str :: "string \<Rightarrow> int result" where
  "int_of_str v =
     (let s = strip v in
      if \<not> underscores_ok (CHR 0x00) s then Inl ValueError
      else let (neg, ds) = split_sign (filter (\<lambda>c. c \<noteq> CHR ''_'') s)
           in if ds \<noteq> [] \<and> list_all is_digit ds
              then Inr (if neg then - digits_value ds else digits_value ds)
              else Inl ValueError)"

definition int_of_value :: "string option \<Rightarrow> int result" where
  "int_of_value v = (case v of None \<Rightarrow> Inl TypeError | Some s \<Rightarrow> int_of_str s)"

subsection \<open>Floating point\<close>

text \<open>
  A Python float is an IEEE 754 binary64 number. A finite one is modelled by its exact
  value, a rational; the sign of zero is not kept (nothing in the program tells the two
  zeros apart: \<^verbatim>\<open>int(-0.0)\<close> is \<^verbatim>\<open>0\<close> and \<^verbatim>\<open>0.0 == -0.0\<close>).
\<close>

datatype pyfloat = Finite rat | PosInf | NegInf | NaN

text \<open>\<open>b\<close> to an integer power.\<close>

definition pow :: "int \<Rightarrow> int \<Rightarrow> rat" where
  "pow b e = (if 0 \<le> e then of_int b ^ nat e else 1 / of_int b ^ nat (- e))"

abbreviation pow2 :: "int \<Rightarrow> rat" where
  "pow2 \<equiv> pow 2"

abbreviation pow10 :: "int \<Rightarrow> rat" where
  "pow10 \<equiv> pow 10"

text \<open>The number of digits of \<open>x\<close> in base \<open>b\<close> (none for \<open>x \<le> 0\<close>).\<close>

function digit_count :: "int \<Rightarrow> int \<Rightarrow> int" where
  "digit_count b x = (if 0 < x \<and> 1 < b then digit_count b (x div b) + 1 else 0)"
  by pat_completeness auto
termination
  by (relation "measure (\<lambda>(b, x). nat x)") (auto simp: int_div_less_self)

declare digit_count.simps [simp del]

text \<open>For \<open>0 < a\<close>, the integer \<open>e\<close> with \<open>b ^ e \<le> a < b ^ (e + 1)\<close>.\<close>

definition floor_log :: "int \<Rightarrow> rat \<Rightarrow> int" where
  "floor_log b a =
     (let (n, d) = quotient_of a;
          e = digit_count b n - digit_count b d
      in if pow b e \<le> a then e else e - 1)"

definition round_half_even :: "rat \<Rightarrow> int" where
  "round_half_even q =
     (let f = \<lfloor>q\<rfloor>; r = q - of_int f
      in if r < 1 / 2 then f else if 1 / 2 < r then f + 1 else if even f then f else f + 1)"

text \<open>
  Rounding an exact value to binary64, to nearest with ties to even: the value is
  \<open>m * 2 ^ (e - 52)\<close> with \<open>m\<close> of at most 53 bits and \<open>e\<close> at least \<open>-1022\<close> (below
  it the spacing stays \<open>2 ^ -1074\<close>); the result is infinite when the rounded value
  reaches \<open>2 ^ 1024\<close>, that is when \<open>e\<close> exceeds \<open>1023\<close> or \<open>m\<close> reaches \<open>2 ^ 53\<close>
  at \<open>e = 1023\<close>.
\<close>

definition float_round :: "rat \<Rightarrow> pyfloat" where
  "float_round q =
     (if q = 0 then Finite 0
      else let a = \<bar>q\<bar>;
               e = max (floor_log 2 a) (- 1022);
               u = pow2 (e - 52);
               m = round_half_even (a / u)
           in if 1023 < e \<or> (e = 1023 \<and> 2 ^ 53 \<le> m) then (if 0 < q then PosInf else NegInf)
              else Finite (if 0 < q then of_int m * u else - (of_int m * u)))"

definition lower_ascii :: "char \<Rightarrow> char" where
  "lower_ascii c =
     (let n = (of_char c :: int) in if 65 \<le> n \<and> n \<le> 90 then char_of (n + 32) else c)"

definition parse_exponent :: "string \<Rightarrow> int option" where
  "parse_exponent s =
     (case s of
        [] \<Rightarrow> Some 0
      | c # r \<Rightarrow>
          if c = CHR ''e'' \<or> c = CHR ''E'' then
            (let (neg, ds) = split_sign r
             in if ds \<noteq> [] \<and> list_all is_digit ds
                then Some (if neg then - digits_value ds else digits_value ds)
                else None)
          else None)"

text \<open>Digits, an optional point and more digits (at least one digit in all), an optional exponent.\<close>

definition parse_decimal :: "string \<Rightarrow> rat option" where
  "parse_decimal s =
     (let ip = takeWhile is_digit s; r1 = dropWhile is_digit s;
          (fp, r2) = (case r1 of
                        [] \<Rightarrow> ([], [])
                      | c # r \<Rightarrow> if c = CHR ''.'' then (takeWhile is_digit r, dropWhile is_digit r)
                                  else ([], r1))
      in if ip = [] \<and> fp = [] then None
         else (case parse_exponent r2 of
                 None \<Rightarrow> None
               | Some ex \<Rightarrow> Some (of_int (digits_value (ip @ fp)) * pow10 (ex - int (length fp)))))"

text \<open>\<^verbatim>\<open>float(s)\<close> for a string.\<close>

definition float_of_str :: "string \<Rightarrow> pyfloat result" where
  "float_of_str v =
     (let s = strip v in
      if \<not> underscores_ok (CHR 0x00) s then Inl ValueError
      else let (neg, body) = split_sign (filter (\<lambda>c. c \<noteq> CHR ''_'') s);
               w = map lower_ascii body
           in if w = ''inf'' \<or> w = ''infinity'' then Inr (if neg then NegInf else PosInf)
              else if w = ''nan'' then Inr NaN
              else (case parse_decimal body of
                      None \<Rightarrow> Inl ValueError
                    | Some q \<Rightarrow> Inr (float_round (if neg then - q else q))))"

text \<open>\<^verbatim>\<open>float(value)\<close>, \<^verbatim>\<open>int(x)\<close> for a float, \<^verbatim>\<open>float(i)\<close> for an integer, \<^verbatim>\<open>x == y\<close>.\<close>

definition float_of_value :: "string option \<Rightarrow> pyfloat result" where
  "float_of_value v = (case v of None \<Rightarrow> Inl TypeError | Some s \<Rightarrow> float_of_str s)"

definition int_of_float :: "pyfloat \<Rightarrow> int result" where
  "int_of_float x =
     (case x of
        Finite q \<Rightarrow> Inr (if 0 \<le> q then \<lfloor>q\<rfloor> else - \<lfloor>- q\<rfloor>)
      | PosInf \<Rightarrow> Inl OverflowError
      | NegInf \<Rightarrow> Inl OverflowError
      | NaN \<Rightarrow> Inl ValueError)"

definition float_of_int :: "int \<Rightarrow> pyfloat result" where
  "float_of_int i =
     (case float_round (of_int i) of
        Finite q \<Rightarrow> Inr (Finite q)
      | PosInf \<Rightarrow> Inl OverflowError
      | NegInf \<Rightarrow> Inl OverflowError
      | NaN \<Rightarrow> Inl OverflowError)"

definition float_eq :: "pyfloat \<Rightarrow> pyfloat \<Rightarrow> bool" where
  "float_eq x y = (x \<noteq> NaN \<and> y \<noteq> NaN \<and> x = y)"

text \<open>
  \<^verbatim>\<open>str(x)\<close> for a float, as Python 3 prints it: the shortest digit string that reads back
  as \<open>x\<close> (of several, the one nearest to \<open>x\<close>; 17 digits always suffice), in exponent
  notation when the decimal point would stand before the fourth leading zero or after
  the sixteenth digit.
\<close>

definition repr_candidate :: "rat \<Rightarrow> int \<Rightarrow> nat \<Rightarrow> (int \<times> int) option" where
  "repr_candidate a k n =
     (let ex = k - int n + 1;
          s = a / pow10 ex;
          lo = \<lfloor>s\<rfloor>;
          hi = lo + 1;
          ok_lo = (float_round (of_int lo * pow10 ex) = Finite a);
          ok_hi = (float_round (of_int hi * pow10 ex) = Finite a);
          d_lo = s - of_int lo;
          d_hi = of_int hi - s
      in if ok_lo \<and> ok_hi
         then Some (if d_lo < d_hi then lo else if d_hi < d_lo then hi
                    else if even lo then lo else hi, ex)
         else if ok_lo then Some (lo, ex)
         else if ok_hi then Some (hi, ex)
         else None)"

fun shortest_digits :: "rat \<Rightarrow> int \<Rightarrow> nat \<Rightarrow> nat \<Rightarrow> int \<times> int" where
  "shortest_digits a k n 0 = (round_half_even (a / pow10 (k - int n + 1)), k - int n + 1)"
| "shortest_digits a k n (Suc fuel) =
     (case repr_candidate a k n of
        Some r \<Rightarrow> r
      | None \<Rightarrow> shortest_digits a k (Suc n) fuel)"

definition strip_zeros :: "string \<Rightarrow> string" where
  "strip_zeros ds = rev (dropWhile (\<lambda>c. c = CHR ''0'') (rev ds))"

definition format_short :: "string \<Rightarrow> int \<Rightarrow> string" where
  "format_short ds decpt =
     (if decpt \<le> - 4 \<or> 16 < decpt then
        (let ex = decpt - 1;
             es = digits_of_nat \<bar>ex\<bar>
         in hd ds # (if tl ds = [] then [] else CHR ''.'' # tl ds)
            @ [CHR ''e'', if ex < 0 then CHR ''-'' else CHR ''+'']
            @ (if length es < 2 then CHR ''0'' # es else es))
      else if decpt \<le> 0 then ''0.'' @ replicate (nat (- decpt)) (CHR ''0'') @ ds
      else if int (length ds) \<le> decpt
        then ds @ replicate (nat decpt - length ds) (CHR ''0'') @ ''.0''
      else take (nat decpt) ds @ CHR ''.'' # drop (nat decpt) ds)"

definition str_float :: "pyfloat \<Rightarrow> string" where
  "str_float x =
     (case x of
        NaN \<Rightarrow> ''nan''
      | PosInf \<Rightarrow> ''inf''
      | NegInf \<Rightarrow> ''-inf''
      | Finite q \<Rightarrow>
          if q = 0 then ''0.0''
          else let a = \<bar>q\<bar>;
                   (c, ex) = shortest_digits a (floor_log 10 a) 1 16;
                   full = digits_of_nat c;
                   ds = strip_zeros full;
                   decpt = int (length full) + ex
               in (if q < 0 then ''-'' else []) @ format_short ds decpt)"

section \<open>Plugins and tracks\<close>

text \<open>
  The classes \<^verbatim>\<open>LadspaPlugin\<close> and \<^verbatim>\<open>LV2Plugin\<close> are the two constructors of \<open>plugin\<close>
  (fields in the order name, enabled, identity, values); a value is a string or \<^verbatim>\<open>None\<close>,
  since the rack parser stores what \<^verbatim>\<open>.string\<close> returns. \<^verbatim>\<open>Track\<close> is a record.
\<close>

datatype plugin =
    LadspaPlugin (plugin_name: "string option") (enabled: bool) (unique_id: int)
      (plugin_values: "string option list")
  | LV2Plugin (plugin_name: "string option") (enabled: bool) (uri: string)
      (plugin_values: "string option list")

record track =
  plugins :: "plugin list"
  nchannels :: int
  samplerate :: int
  track_name :: "string option"

text \<open>\<^verbatim>\<open>format_cmdline(self, format_value)\<close> of the two classes.\<close>

fun format_cmdline :: "plugin \<Rightarrow> (string option \<Rightarrow> string result) \<Rightarrow> string result" where
  "format_cmdline (LadspaPlugin nm en uid vs) format_value =
     (case map_result format_value vs of
        Inl e \<Rightarrow> Inl e
      | Inr strs \<Rightarrow> Inr (''-eli:'' @ str_int uid @ '','' @ join '','' strs))"
| "format_cmdline (LV2Plugin nm en u vs) format_value =
     (case map_result format_value vs of
        Inl e \<Rightarrow> Inl e
      | Inr strs \<Rightarrow> Inr (''-elv2:'' @ u @ '','' @ join '','' strs))"

section \<open>The formatter (class EcasoundOutput)\<close>

text \<open>The attributes the constructor copies from the parsed command line.\<close>

record args =
  include_indices :: "int list"
  exclude_indices :: "int list"
  include_disabled :: bool
  single_line :: bool
  no_description :: bool
  chain_setup :: bool
  client_name :: string

text \<open>\<^verbatim>\<open>EcasoundOutput.format_value\<close>\<close>

definition format_value :: "string option \<Rightarrow> string result" where
  "format_value v =
     (case float_of_value v of
        Inl e \<Rightarrow> Inl e
      | Inr floating \<Rightarrow>
          (case int_of_float floating of
             Inl e \<Rightarrow> Inl e
           | Inr integer \<Rightarrow>
               (case float_of_int integer of
                  Inl e \<Rightarrow> Inl e
                | Inr fi \<Rightarrow> if float_eq fi floating then Inr (str_int integer)
                           else Inr (str_float floating))))"

text \<open>\<^verbatim>\<open>EcasoundOutput.format_plugin\<close>\<close>

definition format_plugin :: "args \<Rightarrow> int \<Rightarrow> plugin \<Rightarrow> string result" where
  "format_plugin a index p =
     (let description =
            (if \<not> no_description a
             then ''# '' @ str_int index @ '': ''
                  @ (case plugin_name p of
                       None \<Rightarrow> []
                     | Some n \<Rightarrow> if n \<noteq> [] then n else [])
                  @ ''\<newline>''
             else []);
          comment = (if \<not> enabled p then ''# '' else [])
      in case format_cmdline p format_value of
           Inl e \<Rightarrow> Inl e
         | Inr c \<Rightarrow> Inr (description @ comment @ c))"

text \<open>The first loop of \<^verbatim>\<open>format_track\<close>: every configured index against the plugin count.\<close>

fun check_indices :: "int list \<Rightarrow> nat \<Rightarrow> unit result" where
  "check_indices [] n = Inr ()"
| "check_indices (i # rest) n =
     (if i < 0 \<or> int n \<le> i
      then Inl (SystemExit (''error: plugin index '' @ str_int i @ '' is out of range''))
      else check_indices rest n)"

text \<open>The second loop: the list \<^verbatim>\<open>plugins\<close> of pairs, grown by \<^verbatim>\<open>append\<close>.\<close>

fun select_plugins :: "args \<Rightarrow> plugin list \<Rightarrow> int list \<Rightarrow> (int \<times> plugin) list
    \<Rightarrow> (int \<times> plugin) list result" where
  "select_plugins a ps [] acc = Inr acc"
| "select_plugins a ps (i # rest) acc =
     (case py_index ps i of
        Inl e \<Rightarrow> Inl e
      | Inr p \<Rightarrow>
          select_plugins a ps rest
            (if enabled p \<or> include_disabled a then acc @ [(i, p)] else acc))"

text \<open>\<^verbatim>\<open>EcasoundOutput.format_track\<close>\<close>

definition format_track :: "args \<Rightarrow> track \<Rightarrow> string result" where
  "format_track a t =
     (case check_indices (include_indices a @ exclude_indices a) (length (plugins t)) of
        Inl e \<Rightarrow> Inl e
      | Inr u \<Rightarrow>
          (let indices =
                 (if include_indices a \<noteq> [] then include_indices a
                  else filter (\<lambda>i. i \<notin> set (exclude_indices a))
                         (map int [0 ..< length (plugins t)]))
           in case select_plugins a (plugins t) indices [] of
                Inl e \<Rightarrow> Inl e
              | Inr selected \<Rightarrow>
                  (let separator = (if single_line a then '' '' else ''\<newline>'')
                   in case map_result (\<lambda>(i, p). format_plugin a i p) selected of
                        Inl e \<Rightarrow> Inl e
                      | Inr strs \<Rightarrow>
                          (let string = join separator strs
                           in if chain_setup a
                              then Inr (''-f:f32,'' @ str_int (nchannels t) @ '',''
                                        @ str_int (samplerate t) @ '' -G:jack,'' @ client_name a
                                        @ '',notransport -i:jack -o:jack\<newline>\<newline>'' @ string)
                              else Inr string))))"

text \<open>
  \<^verbatim>\<open>EcasoundOutput.format_session\<close>: the tuple of a track's block is built left to right,
  so \<^verbatim>\<open>len(track.name)\<close> fails on a missing name before the track is formatted.
\<close>

definition format_block :: "args \<Rightarrow> track \<Rightarrow> string result" where
  "format_block a t =
     (case track_name t of
        None \<Rightarrow> Inl TypeError
      | Some n \<Rightarrow>
          (case format_track a t of
             Inl e \<Rightarrow> Inl e
           | Inr s \<Rightarrow> Inr (n @ '':\<newline>'' @ replicate (length n + 1) (CHR ''-'') @ ''\<newline>'' @ s)))"

definition format_session :: "args \<Rightarrow> track list \<Rightarrow> string result" where
  "format_session a tracks =
     (case map_result (format_block a) tracks of
        Inl e \<Rightarrow> Inl e
      | Inr blocks \<Rightarrow> Inr (join ''\<newline>\<newline>'' blocks))"

section \<open>The formatter's steps as the specification words them\<close>

text \<open>
  Step 1: every index of the inclusion and exclusion lists lies in \<open>[0, count)\<close>.
  Step 2: the effective indices are the inclusion list when it is not empty, else all
  indices outside the exclusion list, ascending. Step 3: of these, the plugins that are
  enabled, or all of them when disabled plugins are included. Steps 4 and 5: the
  renderings joined by the separator, behind the preamble in chain-setup mode.
\<close>

definition indices_valid :: "args \<Rightarrow> track \<Rightarrow> bool" where
  "indices_valid a t =
     list_all (\<lambda>i. 0 \<le> i \<and> i < int (length (plugins t))) (include_indices a @ exclude_indices a)"

definition effective_indices :: "args \<Rightarrow> nat \<Rightarrow> int list" where
  "effective_indices a n =
     (if include_indices a \<noteq> [] then include_indices a
      else filter (\<lambda>i. i \<notin> set (exclude_indices a)) (map int [0 ..< n]))"

definition rendered :: "args \<Rightarrow> track \<Rightarrow> (int \<times> plugin) list" where
  "rendered a t =
     map (\<lambda>i. (i, plugins t ! nat i))
       (filter (\<lambda>i. enabled (plugins t ! nat i) \<or> include_disabled a)
          (effective_indices a (length (plugins t))))"

definition preamble :: "args \<Rightarrow> track \<Rightarrow> string" where
  "preamble a t =
     ''-f:f32,'' @ str_int (nchannels t) @ '','' @ str_int (samplerate t) @ '' -G:jack,''
     @ client_name a @ '',notransport -i:jack -o:jack''"

definition layout :: "args \<Rightarrow> track \<Rightarrow> string list \<Rightarrow> string" where
  "layout a t strs =
     (if chain_setup a then preamble a t @ ''\<newline>\<newline>'' else [])
     @ join (if single_line a then '' '' else ''\<newline>'') strs"

definition render :: "args \<Rightarrow> track \<Rightarrow> (int \<times> plugin) list \<Rightarrow> string result" where
  "render a t sel =
     (case map_result (\<lambda>(i, p). format_plugin a i p) sel of
        Inl e \<Rightarrow> Inl e
      | Inr strs \<Rightarrow> Inr (layout a t strs))"

section \<open>The parsed document\<close>

text \<open>
  The parsers read a tree built by the XML library: a tag has a name, attributes and
  contents, and a piece of text is a \<open>NavigableString\<close>. The document object is itself a
  tag whose contents are the top-level nodes. Only what the parsers use is modelled:
  \<^verbatim>\<open>find_all(name)\<close> (every descendant tag of that name, in document order),
  \<^verbatim>\<open>tag.name\<close> as an attribute access (\<^verbatim>\<open>find(name)\<close>: the first such tag or \<^verbatim>\<open>None\<close>),
  \<^verbatim>\<open>tag[key]\<close>, \<^verbatim>\<open>has_attr\<close> and \<^verbatim>\<open>.string\<close>.
\<close>

datatype xml =
    Tag (tag_name: string) (attrs: "(string \<times> string) list") (contents: "xml list")
  | NavigableString string

fun descendants :: "xml \<Rightarrow> xml list" where
  "descendants (NavigableString s) = []"
| "descendants (Tag n as cs) = concat (map (\<lambda>c. c # descendants c) cs)"

fun is_tag_named :: "string \<Rightarrow> xml \<Rightarrow> bool" where
  "is_tag_named nm (Tag n as cs) = (n = nm)"
| "is_tag_named nm (NavigableString s) = False"

definition find_all :: "xml \<Rightarrow> string \<Rightarrow> xml list" where
  "find_all t nm = filter (is_tag_named nm) (descendants t)"

definition find :: "xml \<Rightarrow> string \<Rightarrow> xml option" where
  "find t nm = (case find_all t nm of [] \<Rightarrow> None | x # rest \<Rightarrow> Some x)"

definition has_attr :: "xml \<Rightarrow> string \<Rightarrow> bool" where
  "has_attr t key = (map_of (attrs t) key \<noteq> None)"

text \<open>\<^verbatim>\<open>tag[key]\<close>\<close>

definition get_item :: "xml \<Rightarrow> string \<Rightarrow> string result" where
  "get_item t key = (case map_of (attrs t) key of None \<Rightarrow> Inl (KeyError key) | Some v \<Rightarrow> Inr v)"

text \<open>
  The same accesses on the result of an attribute access, which is \<^verbatim>\<open>None\<close> when no such
  tag exists: subscripting \<^verbatim>\<open>None\<close> is a \<^verbatim>\<open>TypeError\<close>, any attribute of it an
  \<^verbatim>\<open>AttributeError\<close>.
\<close>

definition opt_item :: "xml option \<Rightarrow> string \<Rightarrow> string result" where
  "opt_item x key = (case x of None \<Rightarrow> Inl TypeError | Some t \<Rightarrow> get_item t key)"

definition opt_find :: "xml option \<Rightarrow> string \<Rightarrow> xml option result" where
  "opt_find x nm = (case x of None \<Rightarrow> Inl AttributeError | Some t \<Rightarrow> Inr (find t nm))"

definition opt_find_all :: "xml option \<Rightarrow> string \<Rightarrow> xml list result" where
  "opt_find_all x nm = (case x of None \<Rightarrow> Inl AttributeError | Some t \<Rightarrow> Inr (find_all t nm))"

definition opt_has_attr :: "xml option \<Rightarrow> string \<Rightarrow> bool result" where
  "opt_has_attr x key = (case x of None \<Rightarrow> Inl AttributeError | Some t \<Rightarrow> Inr (has_attr t key))"

text \<open>\<^verbatim>\<open>tag.string\<close>: the text of a tag with a single child, looked for through single children.\<close>

fun string_of :: "xml \<Rightarrow> string option" where
  "string_of (NavigableString s) = Some s"
| "string_of (Tag n as [c]) = string_of c"
| "string_of (Tag n as cs) = None"

definition opt_string :: "xml option \<Rightarrow> string option result" where
  "opt_string x = (case x of None \<Rightarrow> Inl AttributeError | Some t \<Rightarrow> Inr (string_of t))"

section \<open>The parser of the older session dialect (class Ardour2Session)\<close>

text \<open>\<^verbatim>\<open>Ardour2Session.parse_ladspa\<close> and \<^verbatim>\<open>parse_lv2\<close>\<close>

definition Ardour2_parse_ladspa :: "xml \<Rightarrow> plugin result" where
  "Ardour2_parse_ladspa ins =
     rbind (opt_item (find ins ''Redirect'') ''active'') (\<lambda>active.
     rbind (opt_find (find ins ''Redirect'') ''IO'') (\<lambda>io.
     rbind (opt_item io ''name'') (\<lambda>nm.
     rbind (get_item ins ''unique-id'') (\<lambda>uid.
     rbind (int_of_str uid) (\<lambda>unique_id.
     rbind (opt_find_all (find ins ''ladspa'') ''port'') (\<lambda>ports.
     rbind (map_result (\<lambda>p. get_item p ''value'') ports) (\<lambda>vals.
     Inr (LadspaPlugin (Some nm) (active = ''yes'') unique_id (map Some vals)))))))))"

definition Ardour2_parse_lv2 :: "xml \<Rightarrow> plugin result" where
  "Ardour2_parse_lv2 ins =
     rbind (opt_item (find ins ''Redirect'') ''active'') (\<lambda>active.
     rbind (opt_find (find ins ''Redirect'') ''IO'') (\<lambda>io.
     rbind (opt_item io ''name'') (\<lambda>nm.
     rbind (get_item ins ''unique-id'') (\<lambda>u.
     rbind (opt_find_all (find ins ''lv2'') ''port'') (\<lambda>ports.
     rbind (map_result (\<lambda>p. get_item p ''value'') ports) (\<lambda>vals.
     Inr (LV2Plugin (Some nm) (active = ''yes'') u (map Some vals))))))))"

text \<open>
  The loop of \<^verbatim>\<open>parse_route\<close> over the inserts, with its two lists. The placement is read
  before the type is looked at.
\<close>

fun Ardour2_inserts :: "xml list \<Rightarrow> plugin list \<Rightarrow> plugin list
    \<Rightarrow> (plugin list \<times> plugin list) result" where
  "Ardour2_inserts [] pre_fader post_fader = Inr (pre_fader, post_fader)"
| "Ardour2_inserts (ins # rest) pre_fader post_fader =
     (case get_item ins ''type'' of
        Inl e \<Rightarrow> Inl e
      | Inr type \<Rightarrow>
          (case opt_item (find ins ''Redirect'') ''placement'' of
             Inl e \<Rightarrow> Inl e
           | Inr placement \<Rightarrow>
               if type = ''ladspa'' then
                 (case Ardour2_parse_ladspa ins of
                    Inl e \<Rightarrow> Inl e
                  | Inr plugin \<Rightarrow>
                      if placement = ''PostFader''
                      then Ardour2_inserts rest pre_fader (post_fader @ [plugin])
                      else Ardour2_inserts rest (pre_fader @ [plugin]) post_fader)
               else if type = ''lv2'' then
                 (case Ardour2_parse_lv2 ins of
                    Inl e \<Rightarrow> Inl e
                  | Inr plugin \<Rightarrow>
                      if placement = ''PostFader''
                      then Ardour2_inserts rest pre_fader (post_fader @ [plugin])
                      else Ardour2_inserts rest (pre_fader @ [plugin]) post_fader)
               else Ardour2_inserts rest pre_fader post_fader))"

text \<open>\<^verbatim>\<open>Ardour2Session.parse_route\<close>\<close>

definition Ardour2_nchannels :: "xml \<Rightarrow> int result" where
  "Ardour2_nchannels route =
     rbind (opt_has_attr (find route ''IO'') ''input-connection'') (\<lambda>has.
     if has
     then rbind (opt_item (find route ''IO'') ''input-connection'') (\<lambda>c.
            Inr (if CHR ''+'' \<in> set c then 2 else 1))
     else rbind (opt_item (find route ''IO'') ''inputs'') (\<lambda>inputs.
            Inr (int (length (filter (\<lambda>c. c = CHR ''{'') inputs)))))"

definition Ardour2_parse_route :: "xml \<Rightarrow> xml \<Rightarrow> track result" where
  "Ardour2_parse_route soup route =
     rbind (Ardour2_nchannels route) (\<lambda>nch.
     rbind (opt_item (find soup ''Session'') ''sample-rate'') (\<lambda>sr.
     rbind (int_of_str sr) (\<lambda>rate.
     rbind (opt_item (find route ''IO'') ''name'') (\<lambda>nm.
     rbind (Ardour2_inserts (find_all route ''Insert'') [] []) (\<lambda>(pre_fader, post_fader).
     Inr \<lparr>plugins = pre_fader @ post_fader, nchannels = nch, samplerate = rate,
          track_name = Some nm\<rparr>)))))"

text \<open>
  The units of a route as the specification speaks of them: an insert is a plugin unit
  when its type is \<open>ladspa\<close> or \<open>lv2\<close>, post-fader when its placement says so, and
  \<open>Ardour2_unit\<close> is what the parser of its type makes of it.
\<close>

definition is_plugin_unit :: "xml \<Rightarrow> bool" where
  "is_plugin_unit ins =
     (get_item ins ''type'' = Inr ''ladspa'' \<or> get_item ins ''type'' = Inr ''lv2'')"

definition is_post_fader :: "xml \<Rightarrow> bool" where
  "is_post_fader ins = (opt_item (find ins ''Redirect'') ''placement'' = Inr ''PostFader'')"

definition Ardour2_unit :: "xml \<Rightarrow> plugin result" where
  "Ardour2_unit ins =
     (if get_item ins ''type'' = Inr ''ladspa'' then Ardour2_parse_ladspa ins
      else Ardour2_parse_lv2 ins)"

text \<open>
  What the loop reads of every insert before it looks at the type: the \<open>type\<close> attribute
  and the placement of the insert's \<open>Redirect\<close> element.
\<close>

definition insert_readable :: "xml \<Rightarrow> bool" where
  "insert_readable ins =
     (\<not> isl (get_item ins ''type'') \<and> \<not> isl (opt_item (find ins ''Redirect'') ''placement''))"

section \<open>The parser of rack files (class JackRack)\<close>

text \<open>\<^verbatim>\<open>JackRack.parse_ladspa\<close>: the constructor's default leaves the name \<^verbatim>\<open>None\<close>.\<close>

definition JackRack_parse_ladspa :: "xml \<Rightarrow> plugin result" where
  "JackRack_parse_ladspa plugin =
     rbind (opt_string (find plugin ''enabled'')) (\<lambda>en.
     rbind (opt_string (find plugin ''id'')) (\<lambda>ident.
     rbind (int_of_value ident) (\<lambda>unique_id.
     rbind (map_result (\<lambda>cr. opt_string (find cr ''value'')) (find_all plugin ''controlrow''))
       (\<lambda>vals.
     Inr (LadspaPlugin None (en = Some ''true'') unique_id vals)))))"

text \<open>\<^verbatim>\<open>JackRack.__init__\<close>, returning the track it stores.\<close>

definition JackRack :: "xml \<Rightarrow> track result" where
  "JackRack soup =
     rbind (opt_find (find soup ''jackrack'') ''channels'') (\<lambda>ch.
     rbind (opt_string ch) (\<lambda>chs.
     rbind (int_of_value chs) (\<lambda>nch.
     rbind (opt_find (find soup ''jackrack'') ''samplerate'') (\<lambda>sr.
     rbind (opt_string sr) (\<lambda>srs.
     rbind (int_of_value srs) (\<lambda>rate.
     rbind (opt_find_all (find soup ''jackrack'') ''plugin'') (\<lambda>ps.
     rbind (map_result JackRack_parse_ladspa ps) (\<lambda>plugs.
     Inr \<lparr>plugins = plugs, nchannels = nch, samplerate = rate, track_name = None\<rparr>))))))))"

section \<open>Example inputs\<close>

text \<open>
  The options as the command line leaves them when no flag is given, the two-plugin track
  of the specification's end-to-end example (with the constructor's defaults for the
  rest), and a rack file with two channels, a sample rate of 44100 and one plugin.
\<close>

definition default_args :: args where
  "default_args =
     \<lparr>include_indices = [], exclude_indices = [], include_disabled = False,
      single_line = False, no_description = False, chain_setup = False,
      client_name = ''ecasound''\<rparr>"

definition plugin_A :: plugin where
  "plugin_A = LadspaPlugin (Some ''A'') True 1 [Some ''1.0'', Some ''0.5'']"

definition plugin_B :: plugin where
  "plugin_B = LadspaPlugin (Some ''B'') False 2 [Some ''3'']"

definition track_AB :: track where
  "track_AB = \<lparr>plugins = [plugin_A, plugin_B], nchannels = 2, samplerate = 48000,
               track_name = None\<rparr>"

definition rack_soup :: xml where
  "rack_soup =
     Tag ''[document]'' []
       [Tag ''jackrack'' []
          [Tag ''channels'' [] [NavigableString ''2''],
           Tag ''samplerate'' [] [NavigableString ''44100''],
           Tag ''plugin'' []
             [Tag ''id'' [] [NavigableString ''3''],
              Tag ''enabled'' [] [NavigableString ''true''],
              Tag ''controlrow'' [] [Tag ''value'' [] [NavigableString ''0.2'']],
              Tag ''controlrow'' [] [Tag ''value'' [] [NavigableString ''0.8'']]]]]"

definition rack_track :: track where
  "rack_track =
     \<lparr>plugins = [LadspaPlugin None True 3 [Some ''0.2'', Some ''0.8'']], nchannels = 2,
      samplerate = 44100, track_name = None\<rparr>"

text \<open>
  A session of the older dialect with one route: a post-fader LADSPA insert, a port
  insert and a pre-fader LV2 insert, in this order in the document.
\<close>

definition ardour2_route :: xml where
  "ardour2_route =
     Tag ''Route'' []
       [Tag ''IO'' [(''name'', ''Audio 1''), (''inputs'', ''{system:capture_1}{system:capture_2}'')] [],
        Tag ''Insert'' [(''type'', ''ladspa''), (''unique-id'', ''1423'')]
          [Tag ''Redirect'' [(''active'', ''yes''), (''placement'', ''PostFader'')]
             [Tag ''IO'' [(''name'', ''Plate'')] []],
           Tag ''ladspa'' [] [Tag ''port'' [(''number'', ''0''), (''value'', ''0.5'')] []]],
        Tag ''Insert'' [(''type'', ''port'')]
          [Tag ''Redirect'' [(''active'', ''yes''), (''placement'', ''PreFader'')]
             [Tag ''IO'' [(''name'', ''Send'')] []]],
        Tag ''Insert'' [(''type'', ''lv2''), (''unique-id'', ''urn:eq'')]
          [Tag ''Redirect'' [(''active'', ''no''), (''placement'', ''PreFader'')]
             [Tag ''IO'' [(''name'', ''EQ'')] []],
           Tag ''lv2'' [] [Tag ''port'' [(''value'', ''1'')] [], Tag ''port'' [(''value'', ''-3.5'')] []]]]"

definition ardour2_soup :: xml where
  "ardour2_soup =
     Tag ''[document]'' []
       [Tag ''Session'' [(''version'', ''2.8.11''), (''sample-rate'', ''48000'')]
          [Tag ''Routes'' [] [ardour2_route]]]"

definition ardour2_track :: track where
  "ardour2_track =
     \<lparr>plugins = [LV2Plugin (Some ''EQ'') False ''urn:eq'' [Some ''1'', Some ''-3.5''],
                 LadspaPlugin (Some ''Plate'') True 1423 [Some ''0.5'']],
      nchannels = 2, samplerate = 48000, track_name = Some ''Audio 1''\<rparr>"

text \<open>
  A session of the older dialect whose route holds one port insert with no \<open>Redirect\<close>
  element, and a named track with a plugin value that is not a number.
\<close>

definition port_route :: xml where
  "port_route =
     Tag ''Route'' []
       [Tag ''IO'' [(''name'', ''Audio 1''), (''inputs'', ''{system:capture_1}'')] [],
        Tag ''Insert'' [(''type'', ''port'')] []]"

definition port_soup :: xml where
  "port_soup =
     Tag ''[document]'' []
       [Tag ''Session'' [(''version'', ''2.8.11''), (''sample-rate'', ''48000'')]
          [Tag ''Routes'' [] [port_route]]]"

definition track_C :: track where
  "track_C = \<lparr>plugins = [LadspaPlugin (Some ''C'') True 5 [Some ''abc'']], nchannels = 2,
              samplerate = 48000, track_name = Some ''Bass''\<rparr>"

section \<open>Evaluation of the numeric layer\<close>

function fast_pow :: "rat \<Rightarrow> int \<Rightarrow> rat" where
  "fast_pow b n =
     (if n \<le> 0 then 1
      else if even n then (let h = fast_pow b (n div 2) in h * h)
      else b * fast_pow b (n - 1))"
  by pat_completeness auto
termination
  by (relation "measure (\<lambda>(b, n). nat n)") auto

declare fast_pow.simps [simp del]

lemma fast_pow_power: "0 \<le> n \<Longrightarrow> fast_pow b n = b ^ nat n"
proof (induction b n rule: fast_pow.induct)
  case (1 b n)
  show ?case
  proof (cases "n \<le> 0")
    case True
    with "1.prems" have "n = 0" by simp
    then show ?thesis by (subst fast_pow.simps) simp
  next
    case False
    then have pos: "0 < n" by simp
    show ?thesis
    proof (cases "even n")
      case True
      have ih: "fast_pow b (n div 2) = b ^ nat (n div 2)"
        using "1.IH"(1) [OF False True] pos by simp
      have "nat n = nat (n div 2) + nat (n div 2)"
        using True pos by (auto elim!: evenE simp: nat_add_distrib)
      then have "b ^ nat n = b ^ nat (n div 2) * b ^ nat (n div 2)"
        by (metis power_add)
      moreover have "fast_pow b n = fast_pow b (n div 2) * fast_pow b (n div 2)"
        by (subst fast_pow.simps) (simp add: False True Let_def)
      ultimately show ?thesis by (simp add: ih)
    next
      case odd: False
      have ih: "fast_pow b (n - 1) = b ^ nat (n - 1)"
        using "1.IH"(2) [OF False odd] pos by simp
      have "nat n = Suc (nat (n - 1))"
        using pos by simp
      then have "b ^ nat n = b * b ^ nat (n - 1)"
        by simp
      moreover have "fast_pow b n = b * fast_pow b (n - 1)"
        by (subst fast_pow.simps) (simp add: False odd)
      ultimately show ?thesis by (simp add: ih)
    qed
  qed
qed

lemma pow_code [code]:
  "pow b e = (if 0 \<le> e then fast_pow (of_int b) e else 1 / fast_pow (of_int b) (- e))"
  by (simp add: pow_def fast_pow_power)

lemma format_value_1_0: "format_value (Some ''1.0'') = Inr ''1''"
  by code_simp

lemma format_value_0_5: "format_value (Some ''0.5'') = Inr ''0.5''"
  by code_simp

lemma format_value_3: "format_value (Some ''3'') = Inr ''3''"
  by code_simp

lemma format_value_0_2: "format_value (Some ''0.2'') = Inr ''0.2''"
  by code_simp

lemma format_value_0_8: "format_value (Some ''0.8'') = Inr ''0.8''"
  by code_simp

section \<open>Overflow in the numeric layer\<close>

text \<open>
  \<open>floor_log\<close> is the floor of the logarithm, so a value from \<open>2 ^ 1024\<close> on rounds to
  infinity, and \<^verbatim>\<open>float('1e309')\<close> is infinite.
\<close>

lemma pow_powi: "pow b e = (of_int b :: rat) powi e"
  by (simp add: pow_def power_int_def power_inverse inverse_eq_divide power_one_over)

lemma digit_count_bounds:
  "0 < x \<Longrightarrow> 1 < b \<Longrightarrow>
     0 < digit_count b x \<and> b ^ nat (digit_count b x - 1) \<le> x \<and> x < b ^ nat (digit_count b x)"
proof (induction b x rule: digit_count.induct)
  case (1 b x)
  have dc: "digit_count b x = digit_count b (x div b) + 1"
    using "1.prems" by (subst digit_count.simps) simp
  have m: "x = b * (x div b) + x mod b"
    by simp
  have mb: "0 \<le> x mod b" "x mod b < b"
    using "1.prems"(2) by simp_all
  show ?case
  proof (cases "x div b = 0")
    case True
    then have "x < b"
      using m mb by simp
    moreover have "digit_count b 0 = 0"
      by (subst digit_count.simps) simp
    ultimately show ?thesis
      using "1.prems" True dc by simp
  next
    case False
    moreover have "0 \<le> x div b"
      using "1.prems" by (simp add: pos_imp_zdiv_nonneg_iff)
    ultimately have pos: "0 < x div b"
      by simp
    let ?d = "digit_count b (x div b)"
    from "1.IH" [OF _ pos "1.prems"(2)] "1.prems"
    have ih: "0 < ?d" "b ^ nat (?d - 1) \<le> x div b" "x div b < b ^ nat ?d"
      by simp_all
    have n1: "nat ?d = Suc (nat (?d - 1))"
      using ih(1) by simp
    have n2: "nat (?d + 1) = Suc (nat ?d)"
      using ih(1) by simp
    have "b * b ^ nat (?d - 1) \<le> b * (x div b)"
      using ih(2) "1.prems"(2) by simp
    also have "\<dots> \<le> x"
      using m mb by linarith
    finally have lo: "b ^ nat ?d \<le> x"
      by (simp add: n1)
    have "x < b * (x div b) + b"
      using m mb by linarith
    also have "\<dots> = b * (x div b + 1)"
      by (simp add: algebra_simps)
    also have "\<dots> \<le> b * b ^ nat ?d"
      using ih(3) "1.prems"(2) by simp
    finally have hi: "x < b ^ nat (?d + 1)"
      by (simp add: n2)
    show ?thesis
      using ih(1) lo hi by (simp add: dc)
  qed
qed


lemma floor_log_spec:
  assumes a: "0 < a" and b: "1 < b"
  shows "pow b (floor_log b a) \<le> a \<and> a < pow b (floor_log b a + 1)"
proof -
  obtain n d where q: "quotient_of a = (n, d)"
    by (cases "quotient_of a")
  have d: "0 < d"
    using q by (rule quotient_of_denom_pos)
  have ad: "a = of_int n / of_int d"
    using q by (rule quotient_of_div)
  have n: "0 < n"
    using a d ad by (simp add: zero_less_divide_iff)
  let ?B = "of_int b :: rat"
  have B: "1 < ?B"
    using b by simp
  have conv: "(of_int (b ^ nat k) :: rat) = ?B powi k" if "0 \<le> k" for k
    using that by (simp add: power_int_def)
  from digit_count_bounds [OF n b]
  have nb: "0 < digit_count b n" "b ^ nat (digit_count b n - 1) \<le> n" "n < b ^ nat (digit_count b n)"
    by simp_all
  from digit_count_bounds [OF d b]
  have db: "0 < digit_count b d" "b ^ nat (digit_count b d - 1) \<le> d" "d < b ^ nat (digit_count b d)"
    by simp_all
  let ?e = "digit_count b n - digit_count b d"
  have n_lo: "?B powi (digit_count b n - 1) \<le> of_int n"
    using nb(1,2) conv [of "digit_count b n - 1"] by (metis of_int_le_iff diff_ge_0_iff_ge int_one_le_iff_zero_less)
  have n_hi: "of_int n < ?B powi (digit_count b n)"
    using nb(1,3) conv [of "digit_count b n"] by (metis of_int_less_iff less_imp_le)
  have d_lo: "?B powi (digit_count b d - 1) \<le> of_int d"
    using db(1,2) conv [of "digit_count b d - 1"] by (metis of_int_le_iff diff_ge_0_iff_ge int_one_le_iff_zero_less)
  have d_hi: "of_int d < ?B powi (digit_count b d)"
    using db(1,3) conv [of "digit_count b d"] by (metis of_int_less_iff less_imp_le)
  have ppos: "0 < ?B powi k" for k
    using B by (simp add: zero_less_power_int)
  have dpos: "(0::rat) < of_int d"
    using d by simp
  have "a < ?B powi (digit_count b n) / of_int d"
    unfolding ad using n_hi dpos by (simp add: divide_strict_right_mono)
  also have "\<dots> \<le> ?B powi (digit_count b n) / ?B powi (digit_count b d - 1)"
    using d_lo ppos [of "digit_count b d - 1"] ppos [of "digit_count b n"]
    by (simp add: frac_le)
  also have "\<dots> = ?B powi (?e + 1)"
    using B by (subst power_int_diff [symmetric]) (auto simp: algebra_simps)
  finally have hi: "a < ?B powi (?e + 1)" .
  have "?B powi (?e - 1) = ?B powi (digit_count b n - 1) / ?B powi (digit_count b d)"
    using B by (subst power_int_diff [symmetric]) (auto simp: algebra_simps)
  also have "\<dots> < ?B powi (digit_count b n - 1) / of_int d"
    using d_hi dpos ppos [of "digit_count b n - 1"]
    by (simp add: divide_strict_left_mono)
  also have "\<dots> \<le> a"
    unfolding ad using n_lo dpos by (simp add: divide_right_mono)
  finally have lo: "?B powi (?e - 1) < a" .
  show ?thesis
  proof (cases "pow b ?e \<le> a")
    case True
    then have "floor_log b a = ?e"
      by (simp add: floor_log_def q)
    with True hi show ?thesis
      by (simp add: pow_powi)
  next
    case False
    then have "floor_log b a = ?e - 1"
      by (simp add: floor_log_def q)
    with False lo show ?thesis
      by (simp add: pow_powi)
  qed
qed

lemma floor_log_ge:
  assumes "0 < a" and "1 < b" and "pow b k \<le> a"
  shows "k \<le> floor_log b a"
proof (rule ccontr)
  assume "\<not> k \<le> floor_log b a"
  then have "floor_log b a + 1 \<le> k"
    by simp
  then have "pow b (floor_log b a + 1) \<le> pow b k"
    using assms(2) by (simp add: pow_powi power_int_increasing)
  with assms(3) floor_log_spec [OF assms(1,2)] show False
    by simp
qed

lemma float_round_overflow:
  assumes "pow2 1024 \<le> q"
  shows "float_round q = PosInf"
proof -
  have "0 < pow2 1024"
    by (simp add: pow_def)
  with assms have q: "0 < q"
    by simp
  have "1024 \<le> floor_log 2 q"
    using floor_log_ge [OF q _ assms] by simp
  then show ?thesis
    using q by (simp add: float_round_def Let_def)
qed

lemma float_of_str_1e309: "float_of_str ''1e309'' = Inr (float_round (pow10 309))"
proof -
  have s: "strip ''1e309'' = ''1e309''"
    by code_simp
  have u: "underscores_ok (CHR 0x00) ''1e309''"
    by code_simp
  have sp: "split_sign ''1e309'' = (False, ''1e309'')"
    by code_simp
  have w: "map lower_ascii ''1e309'' = ''1e309''"
    by code_simp
  have pd: "parse_decimal ''1e309'' = Some (pow10 309)"
    by code_simp
  show ?thesis
    by (simp add: float_of_str_def s u sp w pd)
qed

lemma pow10_309_large: "pow2 1024 \<le> pow10 309"
  by (simp add: pow_def)

section \<open>The loops of the formatter\<close>

lemma check_indices_Inr: "(check_indices xs n = Inr u) = (\<forall>i\<in>set xs. 0 \<le> i \<and> i < int n)"
  by (induction xs) auto

lemma check_indices_Inl:
  "check_indices xs n = Inl e \<Longrightarrow>
     \<exists>i\<in>set xs. (i < 0 \<or> int n \<le> i)
        \<and> e = SystemExit (''error: plugin index '' @ str_int i @ '' is out of range'')"
  by (induction xs) (auto split: if_splits)

lemma select_plugins_closed:
  "\<forall>i\<in>set xs. 0 \<le> i \<and> i < int (length ps) \<Longrightarrow>
   select_plugins a ps xs acc =
     Inr (acc @ map (\<lambda>i. (i, ps ! nat i)) (filter (\<lambda>i. enabled (ps ! nat i) \<or> include_disabled a) xs))"
  by (induction xs arbitrary: acc) (auto simp: py_index_def)

lemma effective_indices_in_range:
  "indices_valid a t \<Longrightarrow>
     \<forall>i\<in>set (effective_indices a (length (plugins t))). 0 \<le> i \<and> i < int (length (plugins t))"
  by (auto simp: indices_valid_def effective_indices_def list_all_iff)

lemma format_track_valid:
  assumes "indices_valid a t"
  shows "format_track a t = render a t (rendered a t)"
proof -
  have c: "check_indices (include_indices a @ exclude_indices a) (length (plugins t)) = Inr ()"
    using assms by (simp add: check_indices_Inr indices_valid_def list_all_iff)
  have s: "select_plugins a (plugins t) (effective_indices a (length (plugins t))) [] =
        Inr (rendered a t)"
    using select_plugins_closed [OF effective_indices_in_range [OF assms], of a "[]"]
    by (simp add: rendered_def)
  show ?thesis
    unfolding format_track_def c
    using s by (simp add: effective_indices_def render_def layout_def preamble_def Let_def
        split: sum.splits)
qed


lemma map_result_Inl:
  "map_result f xs = Inl e \<Longrightarrow> \<exists>x\<in>set xs. f x = Inl e"
  by (induction xs) (auto split: sum.splits)

lemma map_result_Inr:
  "map f xs = map Inr ys \<Longrightarrow> map_result f xs = Inr ys"
  by (induction xs arbitrary: ys) auto

lemma float_of_str_error: "float_of_str s = Inl e \<Longrightarrow> e = ValueError"
  by (auto simp: float_of_str_def Let_def split: if_splits prod.splits option.splits)

lemma format_value_error:
  "format_value v = Inl e \<Longrightarrow> e = ValueError \<or> e = OverflowError \<or> e = TypeError"
  by (auto simp: format_value_def float_of_value_def int_of_float_def float_of_int_def
      dest: float_of_str_error split: option.splits sum.splits pyfloat.splits if_splits)

lemma format_cmdline_error:
  "format_cmdline p format_value = Inl e \<Longrightarrow> e = ValueError \<or> e = OverflowError \<or> e = TypeError"
  by (cases p) (auto split: sum.splits dest!: map_result_Inl format_value_error)

lemma format_plugin_error:
  "format_plugin a i p = Inl e \<Longrightarrow> e = ValueError \<or> e = OverflowError \<or> e = TypeError"
  by (auto simp: format_plugin_def Let_def split: sum.splits dest!: format_cmdline_error)

lemma render_error:
  "render a t sel = Inl e \<Longrightarrow> e = ValueError \<or> e = OverflowError \<or> e = TypeError"
  by (auto simp: render_def split: sum.splits dest!: map_result_Inl format_plugin_error)

text \<open>Every plugin the rack parser builds has no name.\<close>

lemma JackRack_parse_ladspa_name:
  "JackRack_parse_ladspa x = Inr p \<Longrightarrow> plugin_name p = None"
  by (auto simp: JackRack_parse_ladspa_def rbind_def split: sum.splits)

lemma JackRack_rack_soup: "JackRack rack_soup = Inr rack_track"
  by code_simp

section \<open>The loop of the older dialect's parser\<close>


lemma Ardour2_inserts_closed:
  "Ardour2_inserts xs pre post = Inr (pre', post') \<Longrightarrow>
     map Inr pre' =
       map Inr pre @ map Ardour2_unit (filter (\<lambda>i. is_plugin_unit i \<and> \<not> is_post_fader i) xs)
     \<and> map Inr post' =
       map Inr post @ map Ardour2_unit (filter (\<lambda>i. is_plugin_unit i \<and> is_post_fader i) xs)"
proof (induction xs arbitrary: pre post)
  case Nil
  then show ?case by simp
next
  case (Cons x xs)
  from Cons.prems obtain ty pl where ty: "get_item x ''type'' = Inr ty"
    and pl: "opt_item (find x ''Redirect'') ''placement'' = Inr pl"
    by (auto split: sum.splits)
  show ?case
  proof (cases "ty = ''ladspa'' \<or> ty = ''lv2''")
    case False
    then have "Ardour2_inserts xs pre post = Inr (pre', post')"
      using Cons.prems ty pl by simp
    from Cons.IH [OF this] False ty show ?thesis
      by (simp add: is_plugin_unit_def)
  next
    case True
    then obtain p where p: "Ardour2_unit x = Inr p"
      using Cons.prems ty pl by (auto simp: Ardour2_unit_def split: sum.splits if_splits)
    have u: "is_plugin_unit x"
      using True ty by (auto simp: is_plugin_unit_def)
    show ?thesis
    proof (cases "pl = ''PostFader''")
      case post: True
      then have "Ardour2_inserts xs pre (post @ [p]) = Inr (pre', post')"
        using Cons.prems ty pl p True by (auto simp: Ardour2_unit_def split: sum.splits if_splits)
      from Cons.IH [OF this] u post pl p show ?thesis
        by (simp add: is_post_fader_def)
    next
      case pre: False
      then have "Ardour2_inserts xs (pre @ [p]) post = Inr (pre', post')"
        using Cons.prems ty pl p True by (auto simp: Ardour2_unit_def split: sum.splits if_splits)
      from Cons.IH [OF this] u pre pl p show ?thesis
        by (simp add: is_post_fader_def)
    qed
  qed
qed

text \<open>
  An insert of another type is passed over once its type and its placement have been
  read; the placement is read first, so such an insert without a \<open>Redirect\<close> element
  stops the parser.
\<close>

lemma Ardour2_inserts_skip:
  "get_item x ''type'' = Inr ty \<Longrightarrow> ty \<noteq> ''ladspa'' \<Longrightarrow> ty \<noteq> ''lv2'' \<Longrightarrow>
   opt_item (find x ''Redirect'') ''placement'' = Inr pl \<Longrightarrow>
   Ardour2_inserts (x # rest) pre post = Ardour2_inserts rest pre post"
  by simp

lemma Ardour2_inserts_no_redirect:
  "Ardour2_inserts [Tag ''Insert'' [(''type'', ''port'')] []] [] [] = Inl TypeError"
  by code_simp

text \<open>
  The loop fails on a list with an insert it cannot read, and returns when every insert
  is readable and every LADSPA or LV2 insert is parsed by the parser of its type.
\<close>

lemma Ardour2_inserts_unreadable:
  "\<exists>x\<in>set xs. \<not> insert_readable x \<Longrightarrow> isl (Ardour2_inserts xs pre post)"
proof (induction xs arbitrary: pre post)
  case Nil
  then show ?case by simp
next
  case (Cons x xs)
  show ?case
  proof (cases "insert_readable x")
    case False
    then show ?thesis
      by (auto simp: insert_readable_def split: sum.splits)
  next
    case True
    with Cons.prems have "\<exists>y\<in>set xs. \<not> insert_readable y"
      by auto
    then have "isl (Ardour2_inserts xs p q)" for p q
      by (rule Cons.IH)
    then show ?thesis
      by (auto split: sum.splits)
  qed
qed

lemma Ardour2_inserts_total:
  "\<forall>x\<in>set xs. insert_readable x \<and> (is_plugin_unit x \<longrightarrow> \<not> isl (Ardour2_unit x)) \<Longrightarrow>
     \<not> isl (Ardour2_inserts xs pre post)"
proof (induction xs arbitrary: pre post)
  case Nil
  then show ?case by simp
next
  case (Cons x xs)
  then have ih: "\<not> isl (Ardour2_inserts xs p q)" for p q
    by simp
  from Cons.prems have rd: "\<not> isl (get_item x ''type'')"
    "\<not> isl (opt_item (find x ''Redirect'') ''placement'')"
    by (simp_all add: insert_readable_def)
  from rd(1) obtain ty where ty: "get_item x ''type'' = Inr ty"
    by (cases "get_item x ''type''") simp_all
  from rd(2) obtain pl where pl: "opt_item (find x ''Redirect'') ''placement'' = Inr pl"
    by (cases "opt_item (find x ''Redirect'') ''placement''") simp_all
  from Cons.prems have u: "is_plugin_unit x \<Longrightarrow> \<not> isl (Ardour2_unit x)"
    by simp
  show ?case
    using ty pl u ih
    by (auto simp: is_plugin_unit_def Ardour2_unit_def split: sum.splits)
qed

lemma Ardour2_parse_ardour2_route: "Ardour2_parse_route ardour2_soup ardour2_route = Inr ardour2_track"
  by code_simp

section \<open>The formatter's claims\<close>

text \<open>
  C1. The numeric formatter returns, for a decimal string that the float parser accepts,
  a string that reads back as the same value, an integer literal exactly when the value
  has no fractional part. The code does not return at all on a decimal string whose value
  rounds to infinity: \<^verbatim>\<open>float('1e309')\<close> is \<^verbatim>\<open>inf\<close> and \<^verbatim>\<open>int(inf)\<close> raises
  \<^verbatim>\<open>OverflowError\<close>, so \<open>format_value\<close> raises where its docstring promises the value's
  shortest representation.
\<close>

theorem format_value_overflow: "format_value (Some ''1e309'') = Inl OverflowError"
  by (simp add: format_value_def float_of_value_def float_of_str_1e309
      float_round_overflow [OF pow10_309_large] int_of_float_def)

text \<open>
  C2. The end-to-end example: for a track whose plugins are A (enabled, id 1, name A,
  values 1.0 and 0.5) and B (disabled, id 2, name B, value 3), with no filters,
  descriptions on, one plugin per line and no chain setup, \<open>format_track\<close> returns the two
  renderings joined by a newline when disabled plugins are included, and only A's two
  lines when they are not. The other fields of the track and the client name are free.
\<close>

theorem format_track_example: "format_track \<lparr>include_indices = [], exclude_indices = [], include_disabled = True,
        single_line = False, no_description = False, chain_setup = False, client_name = c\<rparr>
      \<lparr>plugins = [LadspaPlugin (Some ''A'') True 1 [Some ''1.0'', Some ''0.5''],
                  LadspaPlugin (Some ''B'') False 2 [Some ''3'']],
       nchannels = n, samplerate = r, track_name = nm\<rparr> =
      Inr (join ''\<newline>'' [''# 0: A\<newline>-eli:1,1,0.5'', ''# 1: B\<newline># -eli:2,3''])
  \<and> format_track \<lparr>include_indices = [], exclude_indices = [], include_disabled = False,
        single_line = False, no_description = False, chain_setup = False, client_name = c\<rparr>
      \<lparr>plugins = [LadspaPlugin (Some ''A'') True 1 [Some ''1.0'', Some ''0.5''],
                  LadspaPlugin (Some ''B'') False 2 [Some ''3'']],
       nchannels = n, samplerate = r, track_name = nm\<rparr> =
      Inr ''# 0: A\<newline>-eli:1,1,0.5''"
  by code_simp

theorem format_track_example_witness:
  "format_track (default_args\<lparr>include_disabled := True\<rparr>) track_AB =
     Inr ''# 0: A\<newline>-eli:1,1,0.5\<newline># 1: B\<newline># -eli:2,3''
   \<and> format_track default_args track_AB = Inr ''# 0: A\<newline>-eli:1,1,0.5''"
  using format_track_example [of "''ecasound''" 2 48000 None]
  by (simp add: default_args_def track_AB_def plugin_A_def plugin_B_def)

text \<open>
  C3. When every configured index is in range, \<open>format_track\<close> renders exactly the
  plugins at the effective indices that are enabled (or all of them when disabled plugins
  are included): the effective indices are the inclusion list, in its own order, when it
  is not empty, and otherwise the indices of \<open>[0, count)\<close> outside the exclusion list, in
  ascending order without repetition; with both lists empty these are all the plugins of
  the track, in ascending index order.
\<close>

theorem format_track_selection:
  assumes "indices_valid a t"
  shows "format_track a t = render a t (rendered a t)
    \<and> map fst (rendered a t) =
        filter (\<lambda>i. enabled (plugins t ! nat i) \<or> include_disabled a)
          (if include_indices a \<noteq> [] then include_indices a
           else filter (\<lambda>i. i \<notin> set (exclude_indices a)) (map int [0 ..< length (plugins t)]))
    \<and> (include_indices a = [] \<longrightarrow>
          sorted (map fst (rendered a t)) \<and> distinct (map fst (rendered a t)))
    \<and> (include_indices a = [] \<and> exclude_indices a = [] \<longrightarrow>
          rendered a t =
            map (\<lambda>k. (int k, plugins t ! k))
              (filter (\<lambda>k. enabled (plugins t ! k) \<or> include_disabled a) [0 ..< length (plugins t)]))"
proof -
  have fst: "map fst (rendered a t) =
      filter (\<lambda>i. enabled (plugins t ! nat i) \<or> include_disabled a)
        (effective_indices a (length (plugins t)))"
    by (simp add: rendered_def comp_def)
  have up: "sorted (map int [0 ..< n]) \<and> distinct (map int [0 ..< n])" for n
    by (simp add: sorted_map distinct_map inj_on_def sorted_wrt_iff_nth_less)
  have asc: "sorted (map fst (rendered a t)) \<and> distinct (map fst (rendered a t))"
    if "include_indices a = []"
    unfolding fst using that up [of "length (plugins t)"]
    by (simp add: effective_indices_def sorted_wrt_filter del: sorted_map distinct_map)
  have all: "rendered a t =
      map (\<lambda>k. (int k, plugins t ! k))
        (filter (\<lambda>k. enabled (plugins t ! k) \<or> include_disabled a) [0 ..< length (plugins t)])"
    if "include_indices a = [] \<and> exclude_indices a = []"
    using that by (simp add: rendered_def effective_indices_def filter_map comp_def)
  show ?thesis
    using format_track_valid [OF assms] fst asc all by (simp add: effective_indices_def)
qed

theorem format_track_selection_witness:
  "indices_valid (default_args\<lparr>include_indices := [1, 0], include_disabled := True\<rparr>) track_AB
   \<and> map fst (rendered (default_args\<lparr>include_indices := [1, 0], include_disabled := True\<rparr>)
        track_AB) = [1, 0]
   \<and> format_track (default_args\<lparr>include_indices := [1, 0], include_disabled := True\<rparr>) track_AB =
        Inr ''# 1: B\<newline># -eli:2,3\<newline># 0: A\<newline>-eli:1,1,0.5''"
proof -
  let ?a = "default_args\<lparr>include_indices := [1, 0], include_disabled := True\<rparr>"
  have v: "indices_valid ?a track_AB"
    by code_simp
  have r: "render ?a track_AB (rendered ?a track_AB) =
      Inr ''# 1: B\<newline># -eli:2,3\<newline># 0: A\<newline>-eli:1,1,0.5''"
    by code_simp
  have f: "map fst (rendered ?a track_AB) = [1, 0]"
    by code_simp
  show ?thesis
    using format_track_selection [OF v] v r f by simp
qed

text \<open>
  C4. \<open>format_track\<close> ends the run with \<^verbatim>\<open>sys.exit\<close> exactly when some index of the
  inclusion or exclusion list lies outside \<open>[0, count)\<close>; when every listed index is in
  range it does not (whatever else it raises is not an exit).
\<close>

theorem format_track_fatal_iff:
  "((\<exists>m. format_track a t = Inl (SystemExit m)) \<longleftrightarrow>
      (\<exists>i\<in>set (include_indices a @ exclude_indices a). i < 0 \<or> int (length (plugins t)) \<le> i))
   \<and> ((\<forall>i\<in>set (include_indices a @ exclude_indices a). 0 \<le> i \<and> i < int (length (plugins t)))
        \<longrightarrow> (\<forall>m. format_track a t \<noteq> Inl (SystemExit m)))"
proof -
  let ?xs = "include_indices a @ exclude_indices a"
  let ?n = "length (plugins t)"
  have valid: "\<forall>m. format_track a t \<noteq> Inl (SystemExit m)"
    if ok: "\<forall>i\<in>set ?xs. 0 \<le> i \<and> i < int ?n"
  proof -
    have iv: "indices_valid a t"
      using ok by (simp add: indices_valid_def list_all_iff)
    show ?thesis
      using render_error [of a t "rendered a t"] by (auto simp: format_track_valid [OF iv])
  qed
  have invalid: "\<exists>m. format_track a t = Inl (SystemExit m)"
    if bad: "\<exists>i\<in>set ?xs. i < 0 \<or> int ?n \<le> i"
  proof (cases "check_indices ?xs ?n")
    case (Inl e)
    then obtain m where "e = SystemExit m"
      using check_indices_Inl by blast
    with Inl show ?thesis by (simp add: format_track_def)
  next
    case (Inr u)
    then have "\<forall>i\<in>set ?xs. 0 \<le> i \<and> i < int ?n"
      by (simp only: check_indices_Inr)
    with bad have False by (meson not_le)
    then show ?thesis ..
  qed
  show ?thesis
    using valid invalid by (metis not_le_imp_less not_less)
qed

theorem format_track_fatal_iff_witness:
  "(\<exists>i\<in>set (include_indices (default_args\<lparr>exclude_indices := [2]\<rparr>)
              @ exclude_indices (default_args\<lparr>exclude_indices := [2]\<rparr>)).
       i < 0 \<or> int (length (plugins track_AB)) \<le> i)
   \<and> (\<exists>m. format_track (default_args\<lparr>exclude_indices := [2]\<rparr>) track_AB = Inl (SystemExit m))
   \<and> format_track (default_args\<lparr>exclude_indices := [2]\<rparr>) track_AB =
       Inl (SystemExit ''error: plugin index 2 is out of range'')
   \<and> (\<forall>m. format_track (default_args\<lparr>exclude_indices := [1]\<rparr>) track_AB \<noteq> Inl (SystemExit m))"
proof -
  have bad: "\<exists>i\<in>set (include_indices (default_args\<lparr>exclude_indices := [2]\<rparr>)
              @ exclude_indices (default_args\<lparr>exclude_indices := [2]\<rparr>)).
       i < 0 \<or> int (length (plugins track_AB)) \<le> i"
    by (simp add: default_args_def track_AB_def)
  have ok: "\<forall>i\<in>set (include_indices (default_args\<lparr>exclude_indices := [1]\<rparr>)
              @ exclude_indices (default_args\<lparr>exclude_indices := [1]\<rparr>)).
       0 \<le> i \<and> i < int (length (plugins track_AB))"
    by (simp add: default_args_def track_AB_def)
  have e: "format_track (default_args\<lparr>exclude_indices := [2]\<rparr>) track_AB =
       Inl (SystemExit ''error: plugin index 2 is out of range'')"
    by code_simp
  show ?thesis
    using format_track_fatal_iff [of "default_args\<lparr>exclude_indices := [2]\<rparr>" track_AB]
      format_track_fatal_iff [of "default_args\<lparr>exclude_indices := [1]\<rparr>" track_AB] bad ok e
    by blast
qed

text \<open>
  C6. In chain-setup mode the result of \<open>format_track\<close> is the preamble
  \<^verbatim>\<open>-f:f32,<channels>,<rate> -G:jack,<client>,notransport -i:jack -o:jack\<close>, a blank line
  and what \<open>format_track\<close> returns without chain setup (and it fails exactly when that
  fails). The witness is the rack file with two channels, rate 44100 and client name
  \<open>myclient\<close>, with and without the description line.
\<close>

theorem format_track_chain_setup:
  assumes "chain_setup a"
  shows "format_track a t =
     (case format_track (a\<lparr>chain_setup := False\<rparr>) t of
        Inl e \<Rightarrow> Inl e
      | Inr string \<Rightarrow>
          Inr (''-f:f32,'' @ str_int (nchannels t) @ '','' @ str_int (samplerate t)
               @ '' -G:jack,'' @ client_name a @ '',notransport -i:jack -o:jack''
               @ ''\<newline>\<newline>'' @ string))"
proof -
  let ?b = "a\<lparr>chain_setup := False\<rparr>"
  have sel: "select_plugins ?b ps xs acc = select_plugins a ps xs acc" for ps xs acc
    by (induction xs arbitrary: acc) (auto split: sum.splits)
  have fp: "(\<lambda>(i, p). format_plugin ?b i p) = (\<lambda>(i, p). format_plugin a i p)"
    by (simp add: format_plugin_def)
  show ?thesis
    unfolding format_track_def sel fp
    using assms by (simp add: Let_def split: sum.splits)
qed

theorem format_track_chain_setup_witness:
  "JackRack rack_soup = Inr rack_track
   \<and> chain_setup (default_args\<lparr>chain_setup := True, client_name := ''myclient''\<rparr>)
   \<and> format_track (default_args\<lparr>chain_setup := True, client_name := ''myclient''\<rparr>) rack_track =
       Inr (''-f:f32,2,44100 -G:jack,myclient,notransport -i:jack -o:jack''
            @ ''\<newline>\<newline>'' @ ''# 0: \<newline>-eli:3,0.2,0.8'')
   \<and> format_track (default_args\<lparr>chain_setup := True, client_name := ''myclient'',
          no_description := True\<rparr>) rack_track =
       Inr (''-f:f32,2,44100 -G:jack,myclient,notransport -i:jack -o:jack''
            @ ''\<newline>\<newline>'' @ ''-eli:3,0.2,0.8'')"
proof -
  let ?a = "default_args\<lparr>chain_setup := True, client_name := ''myclient''\<rparr>"
  let ?b = "default_args\<lparr>chain_setup := True, client_name := ''myclient'',
          no_description := True\<rparr>"
  have c: "chain_setup ?a" "chain_setup ?b"
    by (simp_all add: default_args_def)
  have p: "format_track (?a\<lparr>chain_setup := False\<rparr>) rack_track = Inr ''# 0: \<newline>-eli:3,0.2,0.8''"
    by code_simp
  have q: "format_track (?b\<lparr>chain_setup := False\<rparr>) rack_track = Inr ''-eli:3,0.2,0.8''"
    by code_simp
  have n: "str_int (nchannels rack_track) = ''2''" "str_int (samplerate rack_track) = ''44100''"
    by code_simp+
  have f: "format_track ?a rack_track =
       Inr (''-f:f32,2,44100 -G:jack,myclient,notransport -i:jack -o:jack''
            @ ''\<newline>\<newline>'' @ ''# 0: \<newline>-eli:3,0.2,0.8'')"
    unfolding format_track_chain_setup [OF c(1), of rack_track] p n by simp
  have g: "format_track ?b rack_track =
       Inr (''-f:f32,2,44100 -G:jack,myclient,notransport -i:jack -o:jack''
            @ ''\<newline>\<newline>'' @ ''-eli:3,0.2,0.8'')"
    unfolding format_track_chain_setup [OF c(2), of rack_track] q n by simp
  show ?thesis
    using f g c(1) JackRack_rack_soup by blast
qed

text \<open>
  C9. For a plugin without a name, as the rack parser builds them, \<open>format_plugin\<close> with
  descriptions on returns the description line \<^verbatim>\<open># <index>: \<close> with an empty name, then
  the plugin's command fragment (behind \<^verbatim>\<open># \<close> when the plugin is disabled); the missing
  name raises nothing: \<open>format_plugin\<close> fails only where the command fragment does.
\<close>

theorem format_plugin_no_name:
  assumes "plugin_name p = None" and "\<not> no_description a"
  shows "format_plugin a i p =
     (case format_cmdline p format_value of
        Inl e \<Rightarrow> Inl e
      | Inr c \<Rightarrow> Inr (''# '' @ str_int i @ '': '' @ ''\<newline>''
                     @ (if enabled p then [] else ''# '') @ c))"
  using assms by (simp add: format_plugin_def Let_def split: sum.splits)

theorem format_plugin_no_name_witness:
  "plugin_name (hd (plugins rack_track)) = None \<and> \<not> no_description default_args
   \<and> format_plugin default_args 0 (hd (plugins rack_track)) = Inr ''# 0: \<newline>-eli:3,0.2,0.8''"
proof -
  have n: "plugin_name (hd (plugins rack_track)) = None"
    by (simp add: rack_track_def)
  have d: "\<not> no_description default_args"
    by (simp add: default_args_def)
  have c: "format_cmdline (hd (plugins rack_track)) format_value = Inr ''-eli:3,0.2,0.8''"
    by code_simp
  have s: "str_int 0 = ''0''"
    by code_simp
  have e: "enabled (hd (plugins rack_track))"
    by (simp add: rack_track_def)
  have f: "format_plugin default_args 0 (hd (plugins rack_track)) = Inr ''# 0: \<newline>-eli:3,0.2,0.8''"
    unfolding format_plugin_no_name [OF n d, of 0] c s using e by simp
  show ?thesis
    using f n d by blast
qed

text \<open>
  C10. When every configured index is in range and none of the effective indices names a
  plugin to render (the track has no plugins, or each selected plugin is disabled and
  disabled plugins are not included), \<open>format_track\<close> succeeds with the empty string, or
  in chain-setup mode with the preamble and a blank line.
\<close>

theorem format_track_nothing_selected:
  assumes "indices_valid a t"
    and "\<forall>i\<in>set (effective_indices a (length (plugins t))).
           \<not> (enabled (plugins t ! nat i) \<or> include_disabled a)"
  shows "format_track a t = Inr (if chain_setup a then preamble a t @ ''\<newline>\<newline>'' else [])"
proof -
  have "rendered a t = []"
    using assms(2) by (simp add: rendered_def filter_empty_conv)
  then show ?thesis
    by (simp add: format_track_valid [OF assms(1)] render_def layout_def)
qed

theorem format_track_nothing_selected_witness:
  "indices_valid (default_args\<lparr>include_indices := [1]\<rparr>) track_AB
   \<and> list_all (\<lambda>i. \<not> (enabled (plugins track_AB ! nat i)
                      \<or> include_disabled (default_args\<lparr>include_indices := [1]\<rparr>)))
        (effective_indices (default_args\<lparr>include_indices := [1]\<rparr>) (length (plugins track_AB)))
   \<and> format_track (default_args\<lparr>include_indices := [1]\<rparr>) track_AB = Inr []
   \<and> format_track (default_args\<lparr>chain_setup := True\<rparr>) (track_AB\<lparr>plugins := []\<rparr>) =
       Inr ''-f:f32,2,48000 -G:jack,ecasound,notransport -i:jack -o:jack\<newline>\<newline>''"
proof -
  let ?a = "default_args\<lparr>include_indices := [1]\<rparr>"
  let ?b = "default_args\<lparr>chain_setup := True\<rparr>"
  let ?t = "track_AB\<lparr>plugins := []\<rparr>"
  have v: "indices_valid ?a track_AB" "indices_valid ?b ?t"
    by code_simp+
  have n: "list_all (\<lambda>i. \<not> (enabled (plugins track_AB ! nat i) \<or> include_disabled ?a))
        (effective_indices ?a (length (plugins track_AB)))"
    by code_simp
  have m: "\<forall>i\<in>set (effective_indices ?b (length (plugins ?t))).
        \<not> (enabled (plugins ?t ! nat i) \<or> include_disabled ?b)"
    by (simp add: effective_indices_def default_args_def)
  have p: "preamble ?b ?t = ''-f:f32,2,48000 -G:jack,ecasound,notransport -i:jack -o:jack''"
    by code_simp
  have c: "chain_setup ?b" "\<not> chain_setup ?a"
    by (simp_all add: default_args_def)
  show ?thesis
    using format_track_nothing_selected [OF v(1) n [unfolded list_all_iff]]
      format_track_nothing_selected [OF v(2) m] v n
    by (simp add: p c)
qed

text \<open>
  C7. For every list of tracks that have names, \<open>format_session\<close> renders every track:
  the result is the tracks' blocks separated by a blank line, a block being the name
  followed by a colon, on the next line an underline of as many dashes as the name has
  characters plus one (the length of the header line, colon included, not of the name
  alone), and on the next line the track as \<open>format_track\<close> formats it. It fails only
  where \<open>format_track\<close> fails on one of the tracks, with the first such failure.
\<close>

theorem format_session_named:
  assumes "map track_name ts = map Some names"
  shows "format_session a ts =
     (case map_result (format_track a) ts of
        Inl e \<Rightarrow> Inl e
      | Inr bodies \<Rightarrow>
          Inr (join ''\<newline>\<newline>''
                 (map2 (\<lambda>n body. n @ '':'' @ ''\<newline>'' @ replicate (length n + 1) (CHR ''-'')
                                  @ ''\<newline>'' @ body)
                    names bodies)))"
proof -
  let ?blk = "\<lambda>n body. n @ '':'' @ ''\<newline>'' @ replicate (length n + 1) (CHR ''-'') @ ''\<newline>'' @ body"
  have "map_result (format_block a) ts =
      (case map_result (format_track a) ts of
         Inl e \<Rightarrow> Inl e
       | Inr bodies \<Rightarrow> Inr (map2 ?blk names bodies))"
    using assms
  proof (induction ts arbitrary: names)
    case Nil
    then show ?case by simp
  next
    case (Cons t ts)
    then obtain n ns where ns: "names = n # ns" "track_name t = Some n"
      "map track_name ts = map Some ns"
      by (cases names) auto
    from Cons.IH [OF ns(3)] ns(1,2) show ?case
      by (auto simp: format_block_def split: sum.splits)
  qed
  then show ?thesis
    by (simp add: format_session_def split: sum.splits)
qed

theorem format_session_named_witness:
  "map track_name [track_AB\<lparr>track_name := Some ''Drums''\<rparr>, rack_track\<lparr>track_name := Some ''Bus''\<rparr>]
     = map Some [''Drums'', ''Bus'']
   \<and> format_session default_args
       [track_AB\<lparr>track_name := Some ''Drums''\<rparr>, rack_track\<lparr>track_name := Some ''Bus''\<rparr>]
     = Inr (''Drums:\<newline>------\<newline># 0: A\<newline>-eli:1,1,0.5'' @ ''\<newline>\<newline>''
            @ ''Bus:\<newline>----\<newline># 0: \<newline>-eli:3,0.2,0.8'')
   \<and> map track_name [track_AB\<lparr>track_name := Some ''Drums''\<rparr>, track_C] = map Some [''Drums'', ''Bass'']
   \<and> format_track default_args track_C = Inl ValueError
   \<and> format_session default_args [track_AB\<lparr>track_name := Some ''Drums''\<rparr>, track_C] = Inl ValueError"
proof -
  let ?ts = "[track_AB\<lparr>track_name := Some ''Drums''\<rparr>, rack_track\<lparr>track_name := Some ''Bus''\<rparr>]"
  let ?us = "[track_AB\<lparr>track_name := Some ''Drums''\<rparr>, track_C]"
  have n: "map track_name ?ts = map Some [''Drums'', ''Bus'']"
    by simp
  have m: "map track_name ?us = map Some [''Drums'', ''Bass'']"
    by (simp add: track_C_def)
  have b: "map_result (format_track default_args) ?ts =
      Inr [''# 0: A\<newline>-eli:1,1,0.5'', ''# 0: \<newline>-eli:3,0.2,0.8'']"
    by code_simp
  have c: "map_result (format_track default_args) ?us = Inl ValueError"
    by code_simp
  have d: "format_track default_args track_C = Inl ValueError"
    by code_simp
  have f: "format_session default_args ?ts =
      Inr (''Drums:\<newline>------\<newline># 0: A\<newline>-eli:1,1,0.5'' @ ''\<newline>\<newline>''
            @ ''Bus:\<newline>----\<newline># 0: \<newline>-eli:3,0.2,0.8'')"
    unfolding format_session_named [OF n] b by simp
  have g: "format_session default_args ?us = Inl ValueError"
    unfolding format_session_named [OF m] c by simp
  show ?thesis
    using n m d f g by blast
qed

text \<open>
  The claim as worded, an underline as long as the name, fails on a session of one track
  named \<open>Drums\<close>: the underline has six dashes, the name five characters.
\<close>

theorem format_session_underline:
  "format_session default_args [track_AB\<lparr>track_name := Some ''Drums''\<rparr>]
     = Inr (''Drums:'' @ ''\<newline>'' @ ''------'' @ ''\<newline>'' @ ''# 0: A\<newline>-eli:1,1,0.5'')
   \<and> length ''------'' \<noteq> length ''Drums''"
  by code_simp

section \<open>The parser's claims\<close>

text \<open>
  C5. For every route the older dialect's parser turns into a track, the track's plugins
  are the pre-fader LADSPA and LV2 units of the route in document order, then its
  post-fader LADSPA and LV2 units in document order. An insert of another type is skipped
  without error when it carries a type attribute and a \<open>Redirect\<close> element with a
  placement, which the loop reads of every insert before it looks at the type: a route
  whose channel count, sample rate and name are readable, whose inserts all carry the two
  and whose LADSPA and LV2 inserts are parsed yields a track, whatever other inserts it
  holds; a route with an insert that lacks one of the two raises.
\<close>

theorem Ardour2_plugin_order:
  "(Ardour2_parse_route soup route = Inr t \<longrightarrow>
      map Inr (plugins t) =
        map Ardour2_unit
          (filter (\<lambda>i. is_plugin_unit i \<and> \<not> is_post_fader i) (find_all route ''Insert''))
        @ map Ardour2_unit
          (filter (\<lambda>i. is_plugin_unit i \<and> is_post_fader i) (find_all route ''Insert'')))
   \<and> (Ardour2_nchannels route = Inr nch
        \<and> opt_item (find soup ''Session'') ''sample-rate'' = Inr sr \<and> int_of_str sr = Inr rate
        \<and> opt_item (find route ''IO'') ''name'' = Inr nm
        \<and> (\<forall>x\<in>set (find_all route ''Insert'').
              insert_readable x \<and> (is_plugin_unit x \<longrightarrow> \<not> isl (Ardour2_unit x)))
      \<longrightarrow> (\<exists>t'. Ardour2_parse_route soup route = Inr t' \<and> nchannels t' = nch
              \<and> samplerate t' = rate \<and> track_name t' = Some nm))
   \<and> ((\<exists>x\<in>set (find_all route ''Insert''). \<not> insert_readable x)
      \<longrightarrow> isl (Ardour2_parse_route soup route))"
proof (intro conjI impI)
  assume "Ardour2_parse_route soup route = Inr t"
  then obtain pre post where
    l: "Ardour2_inserts (find_all route ''Insert'') [] [] = Inr (pre, post)"
    and t: "plugins t = pre @ post"
    by (auto simp: Ardour2_parse_route_def rbind_def split: sum.splits)
  from Ardour2_inserts_closed [OF l] t
  show "map Inr (plugins t) =
        map Ardour2_unit
          (filter (\<lambda>i. is_plugin_unit i \<and> \<not> is_post_fader i) (find_all route ''Insert''))
        @ map Ardour2_unit
          (filter (\<lambda>i. is_plugin_unit i \<and> is_post_fader i) (find_all route ''Insert''))"
    by simp
next
  assume h: "Ardour2_nchannels route = Inr nch
        \<and> opt_item (find soup ''Session'') ''sample-rate'' = Inr sr \<and> int_of_str sr = Inr rate
        \<and> opt_item (find route ''IO'') ''name'' = Inr nm
        \<and> (\<forall>x\<in>set (find_all route ''Insert'').
              insert_readable x \<and> (is_plugin_unit x \<longrightarrow> \<not> isl (Ardour2_unit x)))"
  then have "\<not> isl (Ardour2_inserts (find_all route ''Insert'') [] [])"
    by (intro Ardour2_inserts_total) simp
  then obtain pre post where "Ardour2_inserts (find_all route ''Insert'') [] [] = Inr (pre, post)"
    by (cases "Ardour2_inserts (find_all route ''Insert'') [] []") auto
  with h show "\<exists>t'. Ardour2_parse_route soup route = Inr t' \<and> nchannels t' = nch
              \<and> samplerate t' = rate \<and> track_name t' = Some nm"
    by (simp add: Ardour2_parse_route_def rbind_def)
next
  assume "\<exists>x\<in>set (find_all route ''Insert''). \<not> insert_readable x"
  then have "isl (Ardour2_inserts (find_all route ''Insert'') [] [])"
    by (rule Ardour2_inserts_unreadable)
  then show "isl (Ardour2_parse_route soup route)"
    by (auto simp: Ardour2_parse_route_def rbind_def split: sum.splits)
qed

theorem Ardour2_plugin_order_witness:
  "list_all (\<lambda>x. insert_readable x \<and> (\<not> is_plugin_unit x \<or> \<not> isl (Ardour2_unit x)))
     (find_all ardour2_route ''Insert'')
   \<and> length (find_all ardour2_route ''Insert'') = 3
   \<and> Ardour2_parse_route ardour2_soup ardour2_route = Inr ardour2_track
   \<and> (\<exists>t'. Ardour2_parse_route ardour2_soup ardour2_route = Inr t' \<and> nchannels t' = 2
         \<and> samplerate t' = 48000 \<and> track_name t' = Some ''Audio 1'')
   \<and> map Inr (plugins ardour2_track) =
       map Ardour2_unit
         (filter (\<lambda>i. is_plugin_unit i \<and> \<not> is_post_fader i) (find_all ardour2_route ''Insert''))
       @ map Ardour2_unit
         (filter (\<lambda>i. is_plugin_unit i \<and> is_post_fader i) (find_all ardour2_route ''Insert''))
   \<and> plugins ardour2_track =
       [LV2Plugin (Some ''EQ'') False ''urn:eq'' [Some ''1'', Some ''-3.5''],
        LadspaPlugin (Some ''Plate'') True 1423 [Some ''0.5'']]
   \<and> list_ex (\<lambda>x. \<not> insert_readable x) (find_all port_route ''Insert'')
   \<and> isl (Ardour2_parse_route port_soup port_route)"
proof -
  have r: "list_all (\<lambda>x. insert_readable x \<and> (\<not> is_plugin_unit x \<or> \<not> isl (Ardour2_unit x)))
     (find_all ardour2_route ''Insert'')"
    by code_simp
  have n: "length (find_all ardour2_route ''Insert'') = 3"
    by code_simp
  have h: "Ardour2_nchannels ardour2_route = Inr 2"
    "opt_item (find ardour2_soup ''Session'') ''sample-rate'' = Inr ''48000''"
    "int_of_str ''48000'' = Inr 48000"
    "opt_item (find ardour2_route ''IO'') ''name'' = Inr ''Audio 1''"
    by code_simp+
  have p: "plugins ardour2_track =
       [LV2Plugin (Some ''EQ'') False ''urn:eq'' [Some ''1'', Some ''-3.5''],
        LadspaPlugin (Some ''Plate'') True 1423 [Some ''0.5'']]"
    by (simp add: ardour2_track_def)
  have u: "list_ex (\<lambda>x. \<not> insert_readable x) (find_all port_route ''Insert'')"
    by code_simp
  have r': "\<forall>x\<in>set (find_all ardour2_route ''Insert'').
      insert_readable x \<and> (is_plugin_unit x \<longrightarrow> \<not> isl (Ardour2_unit x))"
    using r by (auto simp: list_all_iff)
  have u': "\<exists>x\<in>set (find_all port_route ''Insert''). \<not> insert_readable x"
    using u by (simp add: list_ex_iff)
  note A = Ardour2_plugin_order [of ardour2_soup ardour2_route ardour2_track 2 "''48000''" 48000
      "''Audio 1''"]
  note B = Ardour2_plugin_order [of port_soup port_route ardour2_track 2 "''48000''" 48000
      "''Audio 1''"]
  show ?thesis
    using A B r n h p u r' u' Ardour2_parse_ardour2_route by blast
qed

text \<open>
  The claim as worded, that a unit of another type is skipped without error, fails on a
  route whose only insert is a port insert with no \<open>Redirect\<close> element.
\<close>

theorem Ardour2_port_insert_raises:
  "get_item (Tag ''Insert'' [(''type'', ''port'')] []) ''type'' = Inr ''port''
   \<and> find_all port_route ''Insert'' = [Tag ''Insert'' [(''type'', ''port'')] []]
   \<and> Ardour2_parse_route port_soup port_route = Inl TypeError"
  by code_simp



end
